theory Spec2Isabelle
  imports Main "HOL-Library.Word"
begin

unbundle bit_operations_syntax

section \<open>The GPK archive decoder\<close>

text \<open>
  The functions are those of \<^verbatim>\<open>unpacker_cli/gpk.cpp\<close>; the constants and the packed structs
  are those of \<^verbatim>\<open>gpk.h\<close>, read from \<^verbatim>\<open>unpacker_cli_unfinished/gpk.h\<close>, which declares the
  members that \<^verbatim>\<open>gpk.cpp\<close> defines.

  Bytes are \<open>8 word\<close>; a \<^verbatim>\<open>std::vector<uint8_t>\<close> and a \<^verbatim>\<open>std::string\<close> are both
  lists of bytes. Sizes and cursors (\<^verbatim>\<open>size_t\<close>) are natural numbers: every cursor of the
  code stays below the length of a vector plus a few bytes, so no \<^verbatim>\<open>size_t\<close> operation on
  them wraps. The one place where unsigned wrap-around is reachable, the seek offsets of
  \<^verbatim>\<open>GPK::load\<close>, is modelled on 64-bit words. Memory is not bounded in the model: the
  \<^verbatim>\<open>std::bad_alloc\<close> of a vector that cannot be allocated is not modelled.
\<close>

type_synonym u8 = "8 word"
type_synonym u16 = "16 word"
type_synonym u32 = "32 word"
type_synonym u64 = "64 word"
type_synonym bytes = "u8 list"

subsection \<open>The keystream (gpk.h, CIPHERCODE; gpk.cpp, GPK::load, the decrypt loop)\<close>

definition CIPHERCODE :: "u8 list" where
  "CIPHERCODE = [0x82, 0xEE, 0x1D, 0xB3,
                 0x57, 0xE9, 0x2C, 0xC2,
                 0x2F, 0x54, 0x7B, 0x10,
                 0x4C, 0x9A, 0x75, 0x49]"

text \<open>
  \<^verbatim>\<open>for (size_t i = 0; i < compressedData.size(); i++) compressedData[i] ^= CIPHERCODE[i % 16];\<close>
  The loop runs over the indices from \<open>i\<close> on; \<open>decrypt\<close> starts it at index 0.
\<close>

fun decrypt_from :: "nat \<Rightarrow> bytes \<Rightarrow> bytes" where
  "decrypt_from i [] = []"
| "decrypt_from i (b # bs) = (b XOR CIPHERCODE ! (i mod 16)) # decrypt_from (Suc i) bs"

definition decrypt :: "bytes \<Rightarrow> bytes" where
  "decrypt compressedData = decrypt_from 0 compressedData"

subsection \<open>Decompression (gpk.cpp, GPK::decompress_data)\<close>

text \<open>
  zlib is an external library. Its \<^verbatim>\<open>uncompress(dest, &destLen, source, sourceLen)\<close> is a
  parameter of the model: a function from the capacity of the destination buffer (the
  value of \<^verbatim>\<open>destLen\<close> on entry) and the source bytes to the return code and the bytes it
  stored in the destination (their number is \<^verbatim>\<open>destLen\<close> on return).
\<close>

type_synonym codec = "nat \<Rightarrow> bytes \<Rightarrow> int \<times> bytes"

definition Z_OK :: int where "Z_OK = 0"
definition Z_DATA_ERROR :: int where "Z_DATA_ERROR = - 3"
definition Z_MEM_ERROR :: int where "Z_MEM_ERROR = - 4"
definition Z_BUF_ERROR :: int where "Z_BUF_ERROR = - 5"

text \<open>The two \<^verbatim>\<open>throw std::runtime_error\<close> of \<^verbatim>\<open>decompress_data\<close>.\<close>

datatype decode_error =
    InvalidUncompressedSize
  | DecompressionFailed int

definition be32 :: "u8 \<Rightarrow> u8 \<Rightarrow> u8 \<Rightarrow> u8 \<Rightarrow> u32" where
  "be32 b0 b1 b2 b3 =
     push_bit 24 (ucast b0) OR push_bit 16 (ucast b1) OR push_bit 8 (ucast b2) OR ucast b3"

text \<open>\<^verbatim>\<open>std::vector::resize\<close>: cut, or grow with zero bytes.\<close>

definition resize :: "bytes \<Rightarrow> nat \<Rightarrow> bytes" where
  "resize v n = take n v @ replicate (n - length v) 0"

text \<open>A block of bytes stored at the start of a buffer (what a callee leaves in \<^verbatim>\<open>data()\<close>).\<close>

definition store_at_start :: "bytes \<Rightarrow> bytes \<Rightarrow> bytes" where
  "store_at_start buffer written = written @ drop (length written) buffer"

definition decompress_data :: "codec \<Rightarrow> bytes \<Rightarrow> decode_error + bytes" where
  "decompress_data uncompress compressed_data =
     (if length compressed_data < 4 then Inr compressed_data
      else
        let uncompressed_size = be32 (compressed_data ! 0) (compressed_data ! 1)
                                     (compressed_data ! 2) (compressed_data ! 3)
        in if uncompressed_size = 0 then Inl InvalidUncompressedSize
           else
             let result = replicate (unat uncompressed_size) (0 :: u8);
                 (ret, written) = uncompress (unat uncompressed_size) (drop 4 compressed_data)
             in if ret \<noteq> Z_OK then Inl (DecompressionFailed ret)
                else Inr (resize (store_at_start result written) (length written)))"

text \<open>
  A small codec with the interface of \<^verbatim>\<open>uncompress\<close>, to run the model on concrete blobs.
  On a zlib stream that consists of the header \<^verbatim>\<open>78 01\<close>, one final stored block
  (\<^verbatim>\<open>BFINAL = 1, BTYPE = 00\<close>, \<^verbatim>\<open>LEN\<close>, \<^verbatim>\<open>NLEN\<close>, the bytes) and the big-endian Adler-32 of
  the bytes, it answers as zlib does: \<^verbatim>\<open>Z_OK\<close> and the bytes when they fit the destination,
  \<^verbatim>\<open>Z_BUF_ERROR\<close> when they do not. Every other input it reports as \<^verbatim>\<open>Z_DATA_ERROR\<close>;
  zlib accepts more streams than that. The general theorems hold for every codec.
\<close>

fun adler32_from :: "nat \<Rightarrow> nat \<Rightarrow> bytes \<Rightarrow> nat" where
  "adler32_from a b [] = b * 65536 + a"
| "adler32_from a b (x # xs) =
     adler32_from ((a + unat x) mod 65521) ((b + (a + unat x) mod 65521) mod 65521) xs"

definition adler32 :: "bytes \<Rightarrow> u32" where
  "adler32 xs = word_of_nat (adler32_from 1 0 xs)"

definition stored_uncompress :: codec where
  "stored_uncompress cap src =
     (case src of
        cmf # flg # hdr # l0 # l1 # n0 # n1 # rest \<Rightarrow>
          let len = unat l0 + 256 * unat l1;
              body = take len rest;
              tail = drop len rest
          in if cmf = 0x78 \<and> flg = 0x01 \<and> hdr AND 7 = 1 \<and> n0 = NOT l0 \<and> n1 = NOT l1
                \<and> length rest = len + 4
                \<and> be32 (tail ! 0) (tail ! 1) (tail ! 2) (tail ! 3) = adler32 body
             then (if len \<le> cap then (Z_OK, body) else (Z_BUF_ERROR, []))
             else (Z_DATA_ERROR, [])
      | _ \<Rightarrow> (Z_DATA_ERROR, []))"

subsection \<open>Names (gpk.cpp, GPK::utf16le_to_utf8 and the clean-up in GPK::load)\<close>

definition le16 :: "u8 \<Rightarrow> u8 \<Rightarrow> u16" where
  "le16 b0 b1 = ucast b0 OR push_bit 8 (ucast b1)"

text \<open>
  \<^verbatim>\<open>data[i * 2] | (data[i * 2 + 1] << 8)\<close> for \<open>i\<close> below \<^verbatim>\<open>length_in_chars\<close>: the code units
  the loop of \<^verbatim>\<open>utf16le_to_utf8\<close> reads. The caller has checked that the bytes are there.
\<close>

definition code_units :: "bytes \<Rightarrow> nat \<Rightarrow> u16 list" where
  "code_units data length_in_chars =
     map (\<lambda>i. le16 (data ! (i * 2)) (data ! (i * 2 + 1))) [0..<length_in_chars]"

text \<open>The three branches for a character of the basic plane.\<close>

definition bmp_utf8 :: "u16 \<Rightarrow> bytes" where
  "bmp_utf8 utf16_char =
     (if utf16_char < 0x80 then [ucast utf16_char]
      else if utf16_char < 0x800 then
        [ucast (0xC0 OR drop_bit 6 utf16_char),
         ucast (0x80 OR (utf16_char AND 0x3F))]
      else
        [ucast (0xE0 OR drop_bit 12 utf16_char),
         ucast (0x80 OR (drop_bit 6 utf16_char AND 0x3F)),
         ucast (0x80 OR (utf16_char AND 0x3F))])"

definition surrogate_utf8 :: "u16 \<Rightarrow> u16 \<Rightarrow> bytes" where
  "surrogate_utf8 utf16_char low_surrogate =
     (let codepoint = (0x10000 :: u32) + push_bit 10 (ucast (utf16_char AND 0x3FF))
                        + ucast (low_surrogate AND 0x3FF)
      in [ucast (0xF0 OR drop_bit 18 codepoint),
          ucast (0x80 OR (drop_bit 12 codepoint AND 0x3F)),
          ucast (0x80 OR (drop_bit 6 codepoint AND 0x3F)),
          ucast (0x80 OR (codepoint AND 0x3F))])"

text \<open>
  The loop over the code units: a high surrogate followed by a low surrogate takes two
  units (\<^verbatim>\<open>i++; continue\<close>), anything else one.
\<close>

fun utf16_to_utf8 :: "u16 list \<Rightarrow> bytes" where
  "utf16_to_utf8 [] = []"
| "utf16_to_utf8 [utf16_char] = bmp_utf8 utf16_char"
| "utf16_to_utf8 (utf16_char # low_surrogate # rest) =
     (if 0xD800 \<le> utf16_char \<and> utf16_char \<le> 0xDBFF
         \<and> 0xDC00 \<le> low_surrogate \<and> low_surrogate \<le> 0xDFFF
      then surrogate_utf8 utf16_char low_surrogate @ utf16_to_utf8 rest
      else bmp_utf8 utf16_char @ utf16_to_utf8 (low_surrogate # rest))"

definition utf16le_to_utf8 :: "bytes \<Rightarrow> nat \<Rightarrow> bytes" where
  "utf16le_to_utf8 data length_in_chars = utf16_to_utf8 (code_units data length_in_chars)"

text \<open>
  \<^verbatim>\<open>filename.erase(std::find(filename.begin(), filename.end(), '\0'), filename.end())\<close>:
  everything from the first NUL byte on is erased.
\<close>

definition erase_from_nul :: "bytes \<Rightarrow> bytes" where
  "erase_from_nul filename = takeWhile (\<lambda>c. c \<noteq> 0) filename"

text \<open>
  The first test of the clean-up loop. \<^verbatim>\<open>c\<close> is a \<^verbatim>\<open>char\<close>, read here as a signed byte
  (\<open>sint\<close>), as on x86; \<open>keeps_unsigned\<close> below shows that reading it as unsigned
  gives the same test.
\<close>

definition keeps :: "u8 \<Rightarrow> bool" where
  "keeps c \<longleftrightarrow> 32 \<le> sint c \<and> sint c \<le> 126 \<and> c \<noteq> 0x3C \<and> c \<noteq> 0x3E \<and> c \<noteq> 0x3A
               \<and> c \<noteq> 0x22 \<and> c \<noteq> 0x7C \<and> c \<noteq> 0x3F \<and> c \<noteq> 0x2A"

text \<open>
  \<^verbatim>\<open>for (char c : filename) { if (...) cleanFilename += c;
     else if (c == '\\' || c == '/') cleanFilename += '/'; }\<close>
\<close>

fun clean :: "bytes \<Rightarrow> bytes" where
  "clean [] = []"
| "clean (c # cs) =
     (if keeps c then c # clean cs
      else if c = 0x5C \<or> c = 0x2F then 0x2F # clean cs
      else clean cs)"

definition sanitize :: "bytes \<Rightarrow> bytes" where
  "sanitize filename = clean (erase_from_nul filename)"

subsection \<open>The packed records (gpk.h, under \<^verbatim>\<open>#pragma pack(1)\<close>)\<close>

text \<open>
  With \<^verbatim>\<open>#pragma pack(1)\<close> a struct is its fields one after the other, so its size is the
  sum of the sizes of its fields. Each layout lists the fields in order with their sizes
  in bytes.
\<close>

definition GPKsig_fields :: "(string \<times> nat) list" where
  "GPKsig_fields = [(''sig0'', 12), (''pidx_length'', 4), (''sig1'', 16)]"

definition sizeof_GPKsig :: nat where
  "sizeof_GPKsig = sum_list (map snd GPKsig_fields)"

definition GPKEntryHeader_fields :: "(string \<times> nat) list" where
  "GPKEntryHeader_fields =
     [(''sub_version'', 2), (''version'', 2), (''zero'', 2), (''offset'', 4),
      (''comprlen'', 4), (''dflt'', 4), (''uncomprlen'', 4), (''comprheadlen'', 1)]"

definition sizeof_GPKEntryHeader :: nat where
  "sizeof_GPKEntryHeader = sum_list (map snd GPKEntryHeader_fields)"

record GPKEntryHeader =
  sub_version :: u16
  version :: u16
  zero :: u16
  offset :: u32
  comprlen :: u32
  dflt :: bytes
  uncomprlen :: u32
  comprheadlen :: u8

record GPKentry =
  name :: bytes
  header :: GPKEntryHeader

definition le32 :: "u8 \<Rightarrow> u8 \<Rightarrow> u8 \<Rightarrow> u8 \<Rightarrow> u32" where
  "le32 b0 b1 b2 b3 =
     ucast b0 OR push_bit 8 (ucast b1) OR push_bit 16 (ucast b2) OR push_bit 24 (ucast b3)"

text \<open>
  \<^verbatim>\<open>memcpy(&entry.header, &uncompressedData[pos], sizeof(GPKEntryHeader))\<close> on a
  little-endian host; \<open>m\<close> is the memory from \<^verbatim>\<open>&uncompressedData[pos]\<close> on, and the caller
  has checked that it holds the whole record.
\<close>

definition read_GPKEntryHeader :: "bytes \<Rightarrow> GPKEntryHeader" where
  "read_GPKEntryHeader m =
     \<lparr> sub_version = le16 (m ! 0) (m ! 1),
       version = le16 (m ! 2) (m ! 3),
       zero = le16 (m ! 4) (m ! 5),
       offset = le32 (m ! 6) (m ! 7) (m ! 8) (m ! 9),
       comprlen = le32 (m ! 10) (m ! 11) (m ! 12) (m ! 13),
       dflt = [m ! 14, m ! 15, m ! 16, m ! 17],
       uncomprlen = le32 (m ! 18) (m ! 19) (m ! 20) (m ! 21),
       comprheadlen = m ! 22 \<rparr>"

subsection \<open>The entry-stream parser (gpk.cpp, GPK::load, the \<^verbatim>\<open>while\<close> loop)\<close>

text \<open>
  One run of the loop body at cursor \<open>pos\<close> (the loop condition \<^verbatim>\<open>pos < size\<close> is tested
  by \<open>parse_loop\<close>): it leaves the loop (\<^verbatim>\<open>break\<close>), or goes on without an entry
  (\<^verbatim>\<open>continue\<close>) at a new cursor, or appends an entry and goes on at a new cursor.
\<close>

datatype step = Break | Continue nat | Push GPKentry nat

definition parse_step :: "bytes \<Rightarrow> nat \<Rightarrow> step" where
  "parse_step uncompressedData pos =
     (if pos + 2 > length uncompressedData then Break
      else
        let filename_len = unat (le16 (uncompressedData ! pos) (uncompressedData ! (pos + 1)));
            pos1 = pos + 2
        in if filename_len = 0 then Break
           else if pos1 + filename_len * 2 > length uncompressedData then Break
           else
             let filename = utf16le_to_utf8 (drop pos1 uncompressedData) filename_len;
                 pos2 = pos1 + filename_len * 2;
                 cleanFilename = sanitize filename
             in if cleanFilename = [] then Continue (pos2 + sizeof_GPKEntryHeader)
                else if pos2 + sizeof_GPKEntryHeader > length uncompressedData then Break
                else Push \<lparr> name = cleanFilename,
                            header = read_GPKEntryHeader (drop pos2 uncompressedData) \<rparr>
                          (pos2 + sizeof_GPKEntryHeader))"

text \<open>
  The loop. \<open>entries\<close> is the vector the entries are pushed to; \<open>iterations\<close> is not
  in the source: it counts the runs of the loop body, for the bound on their number.
\<close>

function parse_loop :: "bytes \<Rightarrow> nat \<Rightarrow> GPKentry list \<Rightarrow> nat \<Rightarrow> GPKentry list \<times> nat" where
  "parse_loop uncompressedData pos entries iterations =
     (if pos < length uncompressedData then
        (case parse_step uncompressedData pos of
           Break \<Rightarrow> (entries, Suc iterations)
         | Continue pos' \<Rightarrow> parse_loop uncompressedData pos' entries (Suc iterations)
         | Push entry pos' \<Rightarrow>
             parse_loop uncompressedData pos' (entries @ [entry]) (Suc iterations))
      else (entries, iterations))"
  by pat_completeness auto

lemma sizeof_GPKEntryHeader_23: "sizeof_GPKEntryHeader = 23"
  by (simp add: sizeof_GPKEntryHeader_def GPKEntryHeader_fields_def)

lemma parse_step_Continue_advances:
  assumes "parse_step u pos = Continue pos'"
  shows "pos + 27 \<le> pos'"
  using assms
  by (auto simp: parse_step_def Let_def sizeof_GPKEntryHeader_23 split: if_splits)

lemma parse_step_Push_advances:
  assumes "parse_step u pos = Push e pos'"
  shows "pos + 27 \<le> pos'"
  using assms
  by (auto simp: parse_step_def Let_def sizeof_GPKEntryHeader_23 split: if_splits)

termination parse_loop
proof (relation "measure (\<lambda>(u, pos, entries, iterations). length u - pos)")
  show "wf (measure (\<lambda>(u, pos, entries, iterations). length u - pos))"
    by simp
next
  fix u :: bytes and pos pos' :: nat and entries :: "GPKentry list" and iterations :: nat
  assume "pos < length u" and "parse_step u pos = Continue pos'"
  then show "((u, pos', entries, Suc iterations), (u, pos, entries, iterations))
               \<in> measure (\<lambda>(u, pos, entries, iterations). length u - pos)"
    using parse_step_Continue_advances [of u pos pos'] by simp
next
  fix u :: bytes and pos pos' :: nat and entries :: "GPKentry list" and iterations :: nat
    and e :: GPKentry
  assume "pos < length u" and "parse_step u pos = Push e pos'"
  then show "((u, pos', entries @ [e], Suc iterations), (u, pos, entries, iterations))
               \<in> measure (\<lambda>(u, pos, entries, iterations). length u - pos)"
    using parse_step_Push_advances [of u pos e pos'] by simp
qed

declare parse_loop.simps [simp del]

subsection \<open>The input stream (\<^verbatim>\<open>std::ifstream\<close> as GPK::load and GPK::unpack_all use it)\<close>

text \<open>
  \<^verbatim>\<open>std::ifstream\<close> is the standard library's. The model keeps what the code observes of
  it: the bytes of the file, the read position, and whether the stream is still good
  (no \<^verbatim>\<open>failbit\<close>). \<^verbatim>\<open>seekg(pos)\<close> does nothing on a failed stream, fails on a negative
  position and otherwise moves the position (a position past the end of a file is
  accepted). \<^verbatim>\<open>read(buf, n)\<close> does nothing on a failed stream; otherwise it stores the
  bytes that are there, up to \<open>n\<close>, and fails the stream when they are fewer than \<open>n\<close>.
  The second component of \<open>read\<close> is what it stored; its length is \<^verbatim>\<open>gcount()\<close>.
  Every read of the code follows a \<^verbatim>\<open>seekg\<close>, so it sees the file as it is at that
  moment: \<open>content\<close> is the file's bytes, and it changes when the file is written
  (see \<open>unpack_entries\<close>).
\<close>

record ifstream =
  content :: bytes
  gpos :: nat
  good :: bool

definition seekg :: "ifstream \<Rightarrow> int \<Rightarrow> ifstream" where
  "seekg s p =
     (if \<not> good s then s
      else if p < 0 then s\<lparr>good := False\<rparr>
      else s\<lparr>gpos := nat p\<rparr>)"

definition read :: "ifstream \<Rightarrow> nat \<Rightarrow> ifstream \<times> bytes" where
  "read s n =
     (if \<not> good s then (s, [])
      else
        let got = take n (drop (gpos s) (content s))
        in (s\<lparr>gpos := gpos s + length got, good := (length got = n)\<rparr>, got))"

text \<open>
  A file system for reading: the bytes of each file that can be opened, \<open>None\<close> for a
  path that cannot.
\<close>

type_synonym files = "bytes \<Rightarrow> bytes option"

subsection \<open>Loading (gpk.cpp, GPK::load)\<close>

text \<open>A string literal of the source as bytes.\<close>

definition str :: "string \<Rightarrow> bytes" where
  "str s = map of_char s"

definition GPK_TAILER_IDENT0 :: bytes where
  "GPK_TAILER_IDENT0 = str ''STKFile0PIDX''"

definition GPK_TAILER_IDENT1 :: bytes where
  "GPK_TAILER_IDENT1 = str ''STKFile0PACKFILE''"

text \<open>
  \<^verbatim>\<open>strncmp(s1, s2, n) == 0\<close>: at most \<open>n\<close> bytes are compared, and the comparison ends
  at a NUL. \<open>s1\<close> is a literal with its terminating NUL and \<open>s2\<close> a field of \<open>n\<close> bytes,
  so neither list ends before the comparison does; the last equation is not reached.
\<close>

fun strncmp_eq :: "bytes \<Rightarrow> bytes \<Rightarrow> nat \<Rightarrow> bool" where
  "strncmp_eq s1 s2 0 = True"
| "strncmp_eq (a # s1) (b # s2) (Suc n) = (a = b \<and> (a = 0 \<or> strncmp_eq s1 s2 n))"
| "strncmp_eq s1 s2 (Suc n) = False"

text \<open>The fields of the \<^verbatim>\<open>GPKsig\<close> read from the 32 bytes \<open>sign\<close>.\<close>

definition sig0 :: "bytes \<Rightarrow> bytes" where
  "sig0 sign = take 12 sign"

definition pidx_length :: "bytes \<Rightarrow> u32" where
  "pidx_length sign = le32 (sign ! 12) (sign ! 13) (sign ! 14) (sign ! 15)"

definition sig1 :: "bytes \<Rightarrow> bytes" where
  "sig1 sign = take 16 (drop 16 sign)"

text \<open>The archive handle: the members of \<^verbatim>\<open>class GPK\<close>.\<close>

record GPK =
  entries :: "GPKentry list"
  name :: bytes

text \<open>
  The outcome of \<^verbatim>\<open>load\<close>. The source returns \<^verbatim>\<open>true\<close> for \<open>Loaded\<close> and \<^verbatim>\<open>false\<close> for the
  other three, which differ in the message written to \<^verbatim>\<open>std::cerr\<close>.
\<close>

datatype load_result =
    Loaded
  | OpenFailed
  | BrokenSignature
  | DecompressionError decode_error

definition returns_true :: "load_result \<Rightarrow> bool" where
  "returns_true r = (r = Loaded)"

text \<open>
  Lines 111-118: the stream is at the end of the file after \<^verbatim>\<open>seekg(0, std::ios::end)\<close>;
  \<^verbatim>\<open>fileSize - sizeof(GPKsig)\<close> is computed in \<^verbatim>\<open>size_t\<close> (64 bits, wrapping) and becomes
  a signed stream position.
\<close>

definition read_sign :: "bytes \<Rightarrow> ifstream \<times> bytes" where
  "read_sign data =
     (let package = \<lparr> content = data, gpos = length data, good = True \<rparr>;
          fileSize = (word_of_nat (length data) :: u64);
          package = seekg package (sint (fileSize - word_of_nat sizeof_GPKsig))
      in read package sizeof_GPKsig)"

text \<open>Lines 120-122: the test that leads to \<^verbatim>\<open>GPK: broken signature\<close>.\<close>

definition broken_signature :: "bytes \<Rightarrow> bool" where
  "broken_signature sign \<longleftrightarrow>
     length sign \<noteq> sizeof_GPKsig
     \<or> \<not> strncmp_eq (GPK_TAILER_IDENT0 @ [0]) (sig0 sign) (length GPK_TAILER_IDENT0)
     \<or> \<not> strncmp_eq (GPK_TAILER_IDENT1 @ [0]) (sig1 sign) (length GPK_TAILER_IDENT1)"

text \<open>
  Lines 127-135: seek to the index blob, read it into a zero-filled vector of
  \<^verbatim>\<open>pidx_length\<close> bytes, decrypt it. Nothing tests the seek or the read.
\<close>

definition read_index :: "bytes \<Rightarrow> ifstream \<Rightarrow> u32 \<Rightarrow> bytes" where
  "read_index data package len =
     (let fileSize = (word_of_nat (length data) :: u64);
          package = seekg package (sint (fileSize - word_of_nat sizeof_GPKsig - ucast len));
          compressedData = replicate (unat len) (0 :: u8);
          (package, got) = read package (unat len);
          compressedData = store_at_start compressedData got
      in decrypt compressedData)"

definition load :: "codec \<Rightarrow> files \<Rightarrow> GPK \<Rightarrow> bytes \<Rightarrow> load_result \<times> GPK" where
  "load uncompress fs this file_name =
     (let this = this\<lparr>name := file_name\<rparr>
      in case fs file_name of
           None \<Rightarrow> (OpenFailed, this)
         | Some data \<Rightarrow>
             let (package, sign) = read_sign data
             in if broken_signature sign then (BrokenSignature, this)
                else
                  (case decompress_data uncompress
                          (read_index data package (pidx_length sign)) of
                     Inl e \<Rightarrow> (DecompressionError e, this)
                   | Inr uncompressedData \<Rightarrow>
                       (Loaded,
                        this\<lparr>entries :=
                               fst (parse_loop uncompressedData 0 (entries this) 0)\<rparr>)))"

subsection \<open>The archive's name (gpk.cpp, GPK::getName)\<close>



subsection \<open>Extraction (gpk.cpp, GPK::unpack_all)\<close>




text \<open>The body of the \<^verbatim>\<open>for\<close> loop from \<^verbatim>\<open>package.seekg\<close> to the filled buffer.\<close>

definition read_payload :: "ifstream \<Rightarrow> GPKentry \<Rightarrow> ifstream \<times> bytes" where
  "read_payload package entry =
     (let package = seekg package (uint (offset (header entry)));
          buffer = replicate (unat (comprlen (header entry))) (0 :: u8);
          (package, got) = read package (unat (comprlen (header entry)))
      in (package, store_at_start buffer got))"



subsection \<open>Extraction: the bytes of an entry in the archive\<close>





subsection \<open>Sanitization as the specification words it\<close>




subsection \<open>Example data\<close>

text \<open>
  An index record: the name \<^verbatim>\<open>A\<close> (one UTF-16 unit) and a header with \<^verbatim>\<open>sub_version = 1\<close>,
  \<^verbatim>\<open>version = 1\<close>, \<^verbatim>\<open>offset = 5\<close>, \<^verbatim>\<open>comprlen = 3\<close>, the tag \<^verbatim>\<open>DFLT\<close>, \<^verbatim>\<open>uncomprlen = 9\<close>.
\<close>

definition header_bytes :: bytes where
  "header_bytes = [1, 0,  1, 0,  0, 0,  5, 0, 0, 0,  3, 0, 0, 0,
                   0x44, 0x46, 0x4C, 0x54,  9, 0, 0, 0,  0]"

definition record_A :: bytes where
  "record_A = [1, 0,  0x41, 0] @ header_bytes"

definition entry_A :: GPKentry where
  "entry_A =
     \<lparr> GPKentry.name = [0x41],
       header = \<lparr> sub_version = 1, version = 1, zero = 0, offset = 5, comprlen = 3,
                  dflt = [0x44, 0x46, 0x4C, 0x54], uncomprlen = 9, comprheadlen = 0 \<rparr> \<rparr>"

text \<open>A record whose name is the single character \<^verbatim>\<open>:\<close>, which sanitizes to nothing.\<close>

definition record_colon :: bytes where
  "record_colon = [1, 0,  0x3A, 0] @ header_bytes"

text \<open>
  The zlib stream of the two bytes \<^verbatim>\<open>AB\<close> as one stored block (what
  \<^verbatim>\<open>compress2\<close> at level 0 produces), behind a size prefix that declares 5 bytes.
\<close>

definition blob_AB_declared_5 :: bytes where
  "blob_AB_declared_5 =
     [0, 0, 0, 5,
      0x78, 0x01,  0x01,  0x02, 0x00,  0xFD, 0xFF,  0x41, 0x42,  0x00, 0xC6, 0x00, 0x84]"

text \<open>A file system with one file.\<close>

definition single_file :: "bytes \<Rightarrow> bytes \<Rightarrow> files" where
  "single_file path data = (\<lambda>p. if p = path then Some data else None)"



definition new_GPK :: GPK where
  "new_GPK = \<lparr> entries = [], name = [] \<rparr>"

text \<open>Trailers: the two signatures around a little-endian \<^verbatim>\<open>pidx_length\<close>.\<close>

definition sign_3 :: bytes where
  "sign_3 = GPK_TAILER_IDENT0 @ [3, 0, 0, 0] @ GPK_TAILER_IDENT1"


definition sign_46 :: bytes where
  "sign_46 = GPK_TAILER_IDENT0 @ [46, 0, 0, 0] @ GPK_TAILER_IDENT1"

definition sign_64 :: bytes where
  "sign_64 = GPK_TAILER_IDENT0 @ [64, 0, 0, 0] @ GPK_TAILER_IDENT1"


text \<open>The stored payload of the example archives.\<close>

definition payload_ABC :: bytes where
  "payload_ABC = [0xAA, 0xBB, 0xCC]"

text \<open>
  Archive \<^verbatim>\<open>foo\<close>: one entry \<^verbatim>\<open>foo/bar.bin\<close> with \<^verbatim>\<open>offset = 0\<close> and \<^verbatim>\<open>comprlen = 3\<close>, then the
  end mark \<^verbatim>\<open>00 00\<close>. \<open>index_foo\<close> is the entry stream, \<open>plain_foo\<close> its envelope (size
  prefix 49, zlib stream of one stored block), \<open>blob_foo\<close> the envelope under the
  keystream, as it stands in the file.
\<close>

definition index_foo :: bytes where
  "index_foo =
     [0x0B, 0x00, 0x66, 0x00, 0x6F, 0x00, 0x6F, 0x00, 0x2F, 0x00, 0x62, 0x00,
      0x61, 0x00, 0x72, 0x00, 0x2E, 0x00, 0x62, 0x00, 0x69, 0x00, 0x6E, 0x00,
      0x01, 0x00, 0x01, 0x00, 0x00, 0x00, 0x00, 0x00, 0x00, 0x00, 0x03, 0x00,
      0x00, 0x00, 0x20, 0x20, 0x20, 0x20, 0x00, 0x00, 0x00, 0x00, 0x00, 0x00,
      0x00]"

definition plain_foo :: bytes where
  "plain_foo =
     [0x00, 0x00, 0x00, 0x31, 0x78, 0x01, 0x01, 0x31, 0x00, 0xCE, 0xFF, 0x0B,
      0x00, 0x66, 0x00, 0x6F, 0x00, 0x6F, 0x00, 0x2F, 0x00, 0x62, 0x00, 0x61,
      0x00, 0x72, 0x00, 0x2E, 0x00, 0x62, 0x00, 0x69, 0x00, 0x6E, 0x00, 0x01,
      0x00, 0x01, 0x00, 0x00, 0x00, 0x00, 0x00, 0x00, 0x00, 0x03, 0x00, 0x00,
      0x00, 0x20, 0x20, 0x20, 0x20, 0x00, 0x00, 0x00, 0x00, 0x00, 0x00, 0x00,
      0x9D, 0xA6, 0x04, 0xA0]"

definition blob_foo :: bytes where
  "blob_foo =
     [0x82, 0xEE, 0x1D, 0x82, 0x2F, 0xE8, 0x2D, 0xF3, 0x2F, 0x9A, 0x84, 0x1B,
      0x4C, 0xFC, 0x75, 0x26, 0x82, 0x81, 0x1D, 0x9C, 0x57, 0x8B, 0x2C, 0xA3,
      0x2F, 0x26, 0x7B, 0x3E, 0x4C, 0xF8, 0x75, 0x20, 0x82, 0x80, 0x1D, 0xB2,
      0x57, 0xE8, 0x2C, 0xC2, 0x2F, 0x54, 0x7B, 0x10, 0x4C, 0x99, 0x75, 0x49,
      0x82, 0xCE, 0x3D, 0x93, 0x77, 0xE9, 0x2C, 0xC2, 0x2F, 0x54, 0x7B, 0x10,
      0xD1, 0x3C, 0x71, 0xE9]"

definition archive_foo :: bytes where
  "archive_foo = payload_ABC @ blob_foo @ sign_64"

definition entry_foo :: GPKentry where
  "entry_foo =
     \<lparr> GPKentry.name = str ''foo/bar.bin'',
       header = \<lparr> sub_version = 1, version = 1, zero = 0, offset = 0, comprlen = 3,
                  dflt = str ''    '', uncomprlen = 0, comprheadlen = 0 \<rparr> \<rparr>"

text \<open>
  Archive \<^verbatim>\<open>backslash\<close>: one entry whose name is \<^verbatim>\<open>a\b\<close> (UTF-16 units 61, 5C, 62), with
  \<^verbatim>\<open>offset = 0\<close> and \<^verbatim>\<open>comprlen = 3\<close>.
\<close>

definition index_backslash :: bytes where
  "index_backslash =
     [0x03, 0x00, 0x61, 0x00, 0x5C, 0x00, 0x62, 0x00, 0x01, 0x00, 0x01, 0x00,
      0x00, 0x00, 0x00, 0x00, 0x00, 0x00, 0x03, 0x00, 0x00, 0x00, 0x20, 0x20,
      0x20, 0x20, 0x00, 0x00, 0x00, 0x00, 0x00]"

definition plain_backslash :: bytes where
  "plain_backslash =
     [0x00, 0x00, 0x00, 0x1F, 0x78, 0x01, 0x01, 0x1F, 0x00, 0xE0, 0xFF, 0x03,
      0x00, 0x61, 0x00, 0x5C, 0x00, 0x62, 0x00, 0x01, 0x00, 0x01, 0x00, 0x00,
      0x00, 0x00, 0x00, 0x00, 0x00, 0x03, 0x00, 0x00, 0x00, 0x20, 0x20, 0x20,
      0x20, 0x00, 0x00, 0x00, 0x00, 0x00, 0x22, 0xD2, 0x01, 0xA8]"

definition blob_backslash :: bytes where
  "blob_backslash =
     [0x82, 0xEE, 0x1D, 0xAC, 0x2F, 0xE8, 0x2D, 0xDD, 0x2F, 0xB4, 0x84, 0x13,
      0x4C, 0xFB, 0x75, 0x15, 0x82, 0x8C, 0x1D, 0xB2, 0x57, 0xE8, 0x2C, 0xC2,
      0x2F, 0x54, 0x7B, 0x10, 0x4C, 0x99, 0x75, 0x49, 0x82, 0xCE, 0x3D, 0x93,
      0x77, 0xE9, 0x2C, 0xC2, 0x2F, 0x54, 0x59, 0xC2, 0x4D, 0x32]"

definition archive_backslash :: bytes where
  "archive_backslash = payload_ABC @ blob_backslash @ sign_46"

definition entry_backslash :: GPKentry where
  "entry_backslash =
     \<lparr> GPKentry.name = [0x61, 0x5C, 0x62],
       header = \<lparr> sub_version = 1, version = 1, zero = 0, offset = 0, comprlen = 3,
                  dflt = str ''    '', uncomprlen = 0, comprheadlen = 0 \<rparr> \<rparr>"



definition blob_two :: bytes where
  "blob_two =
     [0x82, 0xEE, 0x1D, 0x85, 0x2F, 0xE8, 0x2D, 0xF4, 0x2F, 0x9D, 0x84, 0x11,
      0x4C, 0xFB, 0x75, 0x48, 0x82, 0xEF, 0x1D, 0xB3, 0x57, 0xE9, 0x2C, 0xC2,
      0x2F, 0x57, 0x7B, 0x10, 0x4C, 0xBA, 0x55, 0x69, 0xA2, 0xEE, 0x1D, 0xB3,
      0x57, 0xE9, 0x2D, 0xC2, 0x57, 0x54, 0x7A, 0x10, 0x4D, 0x9A, 0x75, 0x49,
      0xE4, 0xEE, 0x1D, 0xB3, 0x53, 0xE9, 0x2C, 0xC2, 0x0F, 0x74, 0x5B, 0x30,
      0x4C, 0x9A, 0x75, 0x49, 0x82, 0xD2, 0xEE, 0xB1, 0x1A]"






section \<open>Properties\<close>

lemma decrypt_from_twice: "decrypt_from i (decrypt_from i bs) = bs"
  by (induction bs arbitrary: i) (simp_all add: xor.assoc)

lemma length_decrypt_from [simp]: "length (decrypt_from i bs) = length bs"
  by (induction bs arbitrary: i) simp_all

lemma length_decrypt [simp]: "length (decrypt bs) = length bs"
  by (simp add: decrypt_def)

text \<open>
  C7. For every byte sequence \<open>b\<close>, applying the repeating 16-byte XOR keystream twice
  (byte \<open>i\<close> XORed with \<open>CIPHERCODE[i mod 16]\<close>) gives \<open>b\<close> back.
\<close>

theorem C7_decrypt_self_inverse: "decrypt (decrypt b) = b"
  by (simp add: decrypt_def decrypt_from_twice)

subsection \<open>The size of the entry header and the parse cursor\<close>

lemma parse_step_record_colon: "parse_step record_colon 0 = Continue 27"
  by code_simp

lemma parse_step_record_A:
  "parse_step record_A 0 =
     Push entry_A 27"
  by code_simp

text \<open>
  C1, as stated, fails: the packed \<^verbatim>\<open>GPKEntryHeader\<close> is not 21 bytes, and after the
  record \<^verbatim>\<open>:\<close> (2 bytes of length, 2 of name) the cursor is at 27, not at 25.
\<close>

theorem C1_header_is_not_21_bytes:
  "sizeof_GPKEntryHeader \<noteq> 21 \<and> parse_step record_colon 0 = Continue 27"
  by (simp add: sizeof_GPKEntryHeader_23 parse_step_record_colon)

text \<open>
  C1, amended. The \<^verbatim>\<open>GPKEntryHeader\<close> is a packed record of 23 bytes
  (2 + 2 + 2 + 4 + 4 + 4 + 4 + 1), and a run of the parser's loop body that goes on
  leaves the cursor exactly that many bytes behind the name: behind the 2 bytes of the
  length and the \<open>2 * filename_len\<close> bytes of the name, both when it skips an entry whose
  sanitized name is empty and when it stores an entry, whose header is then read from
  the bytes in between.
\<close>

theorem C1_header_is_23_bytes_and_cursor_advances_by_it:
  "sizeof_GPKEntryHeader = 23
   \<and> (parse_step u pos = Continue pos' \<longrightarrow>
        pos' = pos + 2 + unat (le16 (u ! pos) (u ! (pos + 1))) * 2 + sizeof_GPKEntryHeader)
   \<and> (parse_step u pos = Push e pos' \<longrightarrow>
        pos' = pos + 2 + unat (le16 (u ! pos) (u ! (pos + 1))) * 2 + sizeof_GPKEntryHeader
        \<and> header e =
            read_GPKEntryHeader (drop (pos + 2 + unat (le16 (u ! pos) (u ! (pos + 1))) * 2) u))"
  by (auto simp: sizeof_GPKEntryHeader_23 parse_step_def Let_def split: if_splits)

theorem C1_cursor_witness:
  "parse_step record_colon 0 = Continue 27
   \<and> parse_step record_A 0 =
       Push entry_A 27
   \<and> (27 :: nat) = 0 + 2 + unat (le16 (record_colon ! 0) (record_colon ! (0 + 1))) * 2
                     + sizeof_GPKEntryHeader
   \<and> (27 :: nat) = 0 + 2 + unat (le16 (record_A ! 0) (record_A ! (0 + 1))) * 2
                     + sizeof_GPKEntryHeader"
  using C1_header_is_23_bytes_and_cursor_advances_by_it [of record_colon 0 27]
    C1_header_is_23_bytes_and_cursor_advances_by_it [of record_A 0 27 entry_A]
    parse_step_record_colon parse_step_record_A
  by simp

subsection \<open>Decompression\<close>

lemma resize_store_at_start:
  "resize (store_at_start buffer written) (length written) = written"
  by (simp add: resize_def store_at_start_def)

lemma decompress_data_zero_size:
  assumes "4 \<le> length blob" and "be32 (blob ! 0) (blob ! 1) (blob ! 2) (blob ! 3) = 0"
  shows "decompress_data uncompress blob = Inl InvalidUncompressedSize"
  using assms by (simp add: decompress_data_def)

lemma decompress_data_codec_error:
  assumes "4 \<le> length blob"
    and "be32 (blob ! 0) (blob ! 1) (blob ! 2) (blob ! 3) = declared" and "declared \<noteq> 0"
    and "uncompress (unat declared) (drop 4 blob) = (ret, written)" and "ret \<noteq> Z_OK"
  shows "decompress_data uncompress blob = Inl (DecompressionFailed ret)"
  using assms by (simp add: decompress_data_def Let_def)

lemma stored_uncompress_AB:
  "stored_uncompress 5 (drop 4 blob_AB_declared_5) = (Z_OK, [0x41, 0x42])"
  by (simp add: blob_AB_declared_5_def stored_uncompress_def be32_def adler32_def Let_def)

text \<open>
  C2, as stated, fails: a blob of three bytes is returned as it is, without an error.
\<close>

theorem C2_three_bytes_are_returned:
  "length [1, 2, 3 :: u8] < 4
   \<and> decompress_data stored_uncompress [1, 2, 3] = Inr [1, 2, 3]
   \<and> \<not> isl (decompress_data stored_uncompress [1, 2, 3])"
  by (simp add: decompress_data_def)

text \<open>
  C2, amended. For every input of fewer than 4 bytes, \<^verbatim>\<open>decompress_data\<close> succeeds and
  returns the input bytes unchanged, whatever the codec.
\<close>

theorem C2_short_blob_is_returned_unchanged:
  "length blob < 4 \<Longrightarrow> decompress_data uncompress blob = Inr blob"
  by (simp add: decompress_data_def)

theorem C2_short_blob_witness:
  "length [0x82, 0xEE :: u8] < 4 \<and> decompress_data stored_uncompress [0x82, 0xEE] = Inr [0x82, 0xEE]"
  using C2_short_blob_is_returned_unchanged [of "[0x82, 0xEE]" stored_uncompress] by simp

text \<open>
  C3, as stated, fails: the blob declares 5 bytes, its zlib stream inflates without an
  error to the 2 bytes \<^verbatim>\<open>AB\<close>, and \<^verbatim>\<open>decompress_data\<close> returns those 2 bytes.
\<close>

theorem C3_shorter_than_declared:
  "be32 (blob_AB_declared_5 ! 0) (blob_AB_declared_5 ! 1)
        (blob_AB_declared_5 ! 2) (blob_AB_declared_5 ! 3) = 5
   \<and> decompress_data stored_uncompress blob_AB_declared_5 = Inr [0x41, 0x42]"
proof -
  have "be32 (blob_AB_declared_5 ! 0) (blob_AB_declared_5 ! 1)
             (blob_AB_declared_5 ! 2) (blob_AB_declared_5 ! 3) = 5"
    by (simp add: blob_AB_declared_5_def be32_def)
  moreover have "length blob_AB_declared_5 = 17"
    by (simp add: blob_AB_declared_5_def)
  ultimately show ?thesis
    by (simp add: decompress_data_def stored_uncompress_AB Z_OK_def resize_store_at_start
        del: length_0_conv)
qed

text \<open>
  C3, amended. For every blob of at least 4 bytes whose big-endian size prefix is not 0
  and whose payload the codec inflates with \<^verbatim>\<open>Z_OK\<close>, \<^verbatim>\<open>decompress_data\<close> returns exactly
  the bytes the codec produced: the buffer is cut to their number (\<^verbatim>\<open>resize(dest_len)\<close>),
  which need not be the declared size, and fewer bytes than declared are not an error.
\<close>

theorem C3_decompress_returns_what_the_codec_wrote:
  assumes "4 \<le> length blob"
    and "be32 (blob ! 0) (blob ! 1) (blob ! 2) (blob ! 3) = declared"
    and "declared \<noteq> 0"
    and "uncompress (unat declared) (drop 4 blob) = (Z_OK, written)"
  shows "decompress_data uncompress blob = Inr written"
  using assms by (simp add: decompress_data_def Let_def resize_store_at_start)

theorem C3_decompress_witness:
  "4 \<le> length blob_AB_declared_5
   \<and> be32 (blob_AB_declared_5 ! 0) (blob_AB_declared_5 ! 1)
           (blob_AB_declared_5 ! 2) (blob_AB_declared_5 ! 3) = 5
   \<and> (5 :: u32) \<noteq> 0
   \<and> stored_uncompress (unat (5 :: u32)) (drop 4 blob_AB_declared_5) = (Z_OK, [0x41, 0x42])
   \<and> decompress_data stored_uncompress blob_AB_declared_5 = Inr [0x41, 0x42]"
proof -
  have len: "4 \<le> length blob_AB_declared_5"
    by (simp add: blob_AB_declared_5_def)
  have size: "be32 (blob_AB_declared_5 ! 0) (blob_AB_declared_5 ! 1)
                   (blob_AB_declared_5 ! 2) (blob_AB_declared_5 ! 3) = 5"
    by (simp add: blob_AB_declared_5_def be32_def)
  have nz: "(5 :: u32) \<noteq> 0"
    by simp
  have codec: "stored_uncompress (unat (5 :: u32)) (drop 4 blob_AB_declared_5) = (Z_OK, [0x41, 0x42])"
    using stored_uncompress_AB by simp
  from C3_decompress_returns_what_the_codec_wrote
      [where uncompress = stored_uncompress, OF len size nz codec] len size nz codec
  show ?thesis by blast
qed

subsection \<open>Seeking and reading in \<^verbatim>\<open>load\<close>\<close>

lemma sizeof_GPKsig_32: "sizeof_GPKsig = 32"
  by (simp add: sizeof_GPKsig_def GPKsig_fields_def)

lemma sint_u64_of_int:
  assumes "- (2 ^ 63) \<le> k" and "k < 2 ^ 63"
  shows "sint (word_of_int k :: u64) = k"
  using assms by (simp add: sint_sbintrunc' signed_take_bit_int_eq_self)

lemma seek_sign_offset:
  assumes "n < 2 ^ 63"
  shows "sint ((word_of_nat n :: u64) - word_of_nat sizeof_GPKsig) = int n - 32"
proof -
  have n: "int n < 2 ^ 63"
    using assms by (simp add: of_nat_less_numeral_power_cancel_iff)
  have "(word_of_nat n :: u64) - word_of_nat sizeof_GPKsig = word_of_int (int n - 32)"
    by (simp add: sizeof_GPKsig_32)
  moreover have "sint (word_of_int (int n - 32) :: u64) = int n - 32"
    using n by (intro sint_u64_of_int) simp_all
  ultimately show ?thesis by simp
qed

lemma seek_index_offset:
  assumes "n < 2 ^ 63"
  shows "sint ((word_of_nat n :: u64) - word_of_nat sizeof_GPKsig - ucast (len :: u32))
         = int n - 32 - int (unat len)"
proof -
  have len: "uint len < 2 ^ 32" "0 \<le> uint len"
    using uint_lt2p [of len] by simp_all
  have n: "int n < 2 ^ 63"
    using assms by (simp add: of_nat_less_numeral_power_cancel_iff)
  have "(ucast len :: u64) = word_of_int (uint len)"
    by simp
  then have "(word_of_nat n :: u64) - word_of_nat sizeof_GPKsig - ucast len
        = word_of_int (int n - 32 - uint len)"
    by (simp add: sizeof_GPKsig_32)
  moreover have "sint (word_of_int (int n - 32 - uint len) :: u64) = int n - 32 - uint len"
  proof (rule sint_u64_of_int)
    have p: "(2 :: int) ^ 63 = 9223372036854775808" "(2 :: int) ^ 32 = 4294967296"
      by simp_all
    show "- (2 ^ 63) \<le> int n - 32 - uint len" using len p by linarith
    show "int n - 32 - uint len < 2 ^ 63" using len n p by linarith
  qed
  ultimately show ?thesis by simp
qed

lemma seekg_good_nonneg: "good s \<Longrightarrow> 0 \<le> p \<Longrightarrow> seekg s p = s\<lparr>gpos := nat p\<rparr>"
  by (simp add: seekg_def)

lemma seekg_good_neg: "good s \<Longrightarrow> p < 0 \<Longrightarrow> seekg s p = s\<lparr>good := False\<rparr>"
  by (simp add: seekg_def)

lemma read_failed: "\<not> good s \<Longrightarrow> read s n = (s, [])"
  by (simp add: read_def)

lemma read_available:
  assumes "good s" and "gpos s + n \<le> length (content s)"
  shows "read s n = (s\<lparr>gpos := gpos s + n\<rparr>, take n (drop (gpos s) (content s)))"
  using assms by (simp add: read_def Let_def min_def)

lemma read_sign_full:
  assumes "32 \<le> length data" and "length data < 2 ^ 63"
  shows "read_sign data =
           (\<lparr> content = data, gpos = length data, good = True \<rparr>,
            drop (length data - 32) data)"
proof -
  define k where "k = length data - 32"
  have len: "length data = k + 32"
    using assms by (simp add: k_def)
  have "int (length data) - 32 = int k"
    using len by simp
  then have off: "sint ((word_of_nat (length data) :: u64) - word_of_nat sizeof_GPKsig) = int k"
    by (simp only: seek_sign_offset [OF assms(2)])
  show ?thesis
    unfolding read_sign_def Let_def off
    by (simp add: sizeof_GPKsig_32 seekg_good_nonneg read_available len)
qed

lemma read_sign_short:
  assumes "length data < 32"
  shows "snd (read_sign data) = []"
proof -
  have "length data < 2 ^ 63"
    using assms by simp
  then have "sint ((word_of_nat (length data) :: u64) - word_of_nat sizeof_GPKsig) < 0"
    using assms by (simp add: seek_sign_offset)
  then show ?thesis
    unfolding read_sign_def Let_def
    by (simp add: seekg_good_neg read_failed)
qed

lemma broken_signature_short: "length data < 32 \<Longrightarrow> broken_signature (snd (read_sign data))"
  by (simp add: read_sign_short broken_signature_def sizeof_GPKsig_32)

lemma read_index_in_range:
  assumes "32 \<le> length data" and "length data < 2 ^ 63"
    and "unat len \<le> length data - 32"
  shows "read_index data \<lparr> content = data, gpos = length data, good = True \<rparr> len
         = decrypt (take (unat len) (drop (length data - 32 - unat len) data))"
proof -
  define k where "k = length data - 32 - unat len"
  have len: "length data = k + unat len + 32"
    using assms by (simp add: k_def)
  have "int (length data) - 32 - int (unat len) = int k"
    using len by simp
  then have off: "sint ((word_of_nat (length data) :: u64) - word_of_nat sizeof_GPKsig - ucast len) = int k"
    by (simp only: seek_index_offset [OF assms(2)])
  show ?thesis
    unfolding read_index_def Let_def off
    by (simp add: seekg_good_nonneg read_available store_at_start_def len)
qed

lemma read_index_out_of_range:
  assumes "32 \<le> length data" and "length data < 2 ^ 63"
    and "length data - 32 < unat len"
  shows "read_index data \<lparr> content = data, gpos = length data, good = True \<rparr> len
         = decrypt (replicate (unat len) 0)"
proof -
  have "int (length data) - 32 - int (unat len) < 0"
    using assms by linarith
  then have off: "sint ((word_of_nat (length data) :: u64) - word_of_nat sizeof_GPKsig - ucast len) < 0"
    using assms by (simp only: seek_index_offset)
  show ?thesis
    unfolding read_index_def Let_def
    by (simp add: seekg_good_neg [OF _ off] read_failed store_at_start_def)
qed

lemma load_valid_trailer:
  assumes "fs file_name = Some data" and "length data < 2 ^ 63"
    and "\<not> broken_signature (snd (read_sign data))"
  shows "32 \<le> length data"
    and "load uncompress fs this file_name =
           (case decompress_data uncompress
                   (read_index data \<lparr> content = data, gpos = length data, good = True \<rparr>
                      (pidx_length (drop (length data - 32) data))) of
              Inl e \<Rightarrow> (DecompressionError e, this\<lparr>name := file_name\<rparr>)
            | Inr uncompressedData \<Rightarrow>
                (Loaded, this\<lparr>name := file_name,
                              entries := fst (parse_loop uncompressedData 0 (entries this) 0)\<rparr>))"
proof -
  show len: "32 \<le> length data"
    using assms(3) broken_signature_short [of data] by (cases "length data < 32") simp_all
  note rs = read_sign_full [OF len assms(2)]
  have "\<not> broken_signature (drop (length data - 32) data)"
    using assms(3) by (simp add: rs)
  then show "load uncompress fs this file_name =
           (case decompress_data uncompress
                   (read_index data \<lparr> content = data, gpos = length data, good = True \<rparr>
                      (pidx_length (drop (length data - 32) data))) of
              Inl e \<Rightarrow> (DecompressionError e, this\<lparr>name := file_name\<rparr>)
            | Inr uncompressedData \<Rightarrow>
                (Loaded, this\<lparr>name := file_name,
                              entries := fst (parse_loop uncompressedData 0 (entries this) 0)\<rparr>))"
    by (simp add: load_def Let_def assms(1) rs split: sum.splits)
qed

lemma load_archive:
  assumes "fs file_name = Some (payload @ blob @ sign)"
    and "length sign = 32" and "\<not> broken_signature sign"
    and "unat (pidx_length sign) = length blob"
    and "length payload + length blob + 32 < 2 ^ 63"
  shows "load uncompress fs this file_name =
           (case decompress_data uncompress (decrypt blob) of
              Inl e \<Rightarrow> (DecompressionError e, this\<lparr>name := file_name\<rparr>)
            | Inr uncompressedData \<Rightarrow>
                (Loaded, this\<lparr>name := file_name,
                              entries := fst (parse_loop uncompressedData 0 (entries this) 0)\<rparr>))"
proof -
  let ?data = "payload @ blob @ sign"
  have len: "32 \<le> length ?data" "length ?data < 2 ^ 63"
    using assms(2,5) by simp_all
  have sign: "drop (length ?data - 32) ?data = sign"
    using assms(2) by simp
  have "snd (read_sign ?data) = sign"
    by (simp only: read_sign_full [OF len] snd_conv sign)
  then have ok: "\<not> broken_signature (snd (read_sign ?data))"
    using assms(3) by simp
  have "read_index ?data \<lparr> content = ?data, gpos = length ?data, good = True \<rparr> (pidx_length sign)
        = decrypt blob"
    using read_index_in_range [OF len, of "pidx_length sign"] assms(2,4) by simp
  then show ?thesis
    using load_valid_trailer(2) [of fs file_name ?data, OF assms(1) len(2) ok, of uncompress this]
    by (simp only: sign)
qed

subsection \<open>The example archives\<close>

lemma sign_3: "length sign_3 = 32" "\<not> broken_signature sign_3" "unat (pidx_length sign_3) = 3"
  by code_simp+


lemma sign_46: "length sign_46 = 32" "\<not> broken_signature sign_46" "unat (pidx_length sign_46) = 46"
  by code_simp+

lemma sign_64: "length sign_64 = 32" "\<not> broken_signature sign_64" "unat (pidx_length sign_64) = 64"
  by code_simp+


lemma length_blobs:
  "length blob_foo = 64" "length blob_backslash = 46" "length blob_two = 69"
  by (simp_all add: blob_foo_def blob_backslash_def blob_two_def)

lemma decrypt_blob_foo: "decrypt blob_foo = plain_foo"
  by code_simp

lemma decrypt_blob_backslash: "decrypt blob_backslash = plain_backslash"
  by code_simp


lemma decompress_plain_foo: "decompress_data stored_uncompress plain_foo = Inr index_foo"
  by (simp add: plain_foo_def index_foo_def decompress_data_def stored_uncompress_def
      be32_def adler32_def Let_def Z_OK_def resize_def store_at_start_def)

lemma decompress_plain_backslash:
  "decompress_data stored_uncompress plain_backslash = Inr index_backslash"
  by (simp add: plain_backslash_def index_backslash_def decompress_data_def stored_uncompress_def
      be32_def adler32_def Let_def Z_OK_def resize_def store_at_start_def)


lemma parse_index_foo: "parse_loop index_foo 0 [] 0 = ([entry_foo], 2)"
  by code_simp

lemma parse_index_backslash: "parse_loop index_backslash 0 [] 0 = ([entry_backslash], 1)"
  by code_simp


lemma load_archive_foo:
  "load stored_uncompress (single_file path archive_foo) new_GPK path
   = (Loaded, \<lparr> entries = [entry_foo], name = path \<rparr>)"
proof -
  have "single_file path archive_foo path = Some (payload_ABC @ blob_foo @ sign_64)"
    by (simp add: single_file_def archive_foo_def)
  from load_archive [where fs = "single_file path archive_foo" and file_name = path
      and uncompress = stored_uncompress and this = new_GPK, OF this sign_64(1,2)]
  show ?thesis
    by (simp add: sign_64(3) length_blobs payload_ABC_def decrypt_blob_foo decompress_plain_foo
        new_GPK_def parse_index_foo)
qed

lemma load_archive_backslash:
  "load stored_uncompress (single_file path archive_backslash) new_GPK path
   = (Loaded, \<lparr> entries = [entry_backslash], name = path \<rparr>)"
proof -
  have "single_file path archive_backslash path = Some (payload_ABC @ blob_backslash @ sign_46)"
    by (simp add: single_file_def archive_backslash_def)
  from load_archive [where fs = "single_file path archive_backslash" and file_name = path
      and uncompress = stored_uncompress and this = new_GPK, OF this sign_46(1,2)]
  show ?thesis
    by (simp add: sign_46(3) length_blobs payload_ABC_def decrypt_blob_backslash
        decompress_plain_backslash new_GPK_def parse_index_backslash)
qed


subsection \<open>Loading: the index blob and failed loads\<close>

lemma load_overlong_index:
  assumes "fs file_name = Some (before @ sign)"
    and "length sign = 32" and "\<not> broken_signature sign"
    and "length before < unat (pidx_length sign)"
    and "length before + 32 < 2 ^ 63"
  shows "load uncompress fs this file_name =
           (case decompress_data uncompress (decrypt (replicate (unat (pidx_length sign)) 0)) of
              Inl e \<Rightarrow> (DecompressionError e, this\<lparr>name := file_name\<rparr>)
            | Inr uncompressedData \<Rightarrow>
                (Loaded, this\<lparr>name := file_name,
                              entries := fst (parse_loop uncompressedData 0 (entries this) 0)\<rparr>))"
proof -
  let ?data = "before @ sign"
  have len: "32 \<le> length ?data" "length ?data < 2 ^ 63"
    using assms(2,5) by simp_all
  have sign: "drop (length ?data - 32) ?data = sign"
    using assms(2) by simp
  have "snd (read_sign ?data) = sign"
    by (simp only: read_sign_full [OF len] snd_conv sign)
  then have ok: "\<not> broken_signature (snd (read_sign ?data))"
    using assms(3) by simp
  have "length ?data - 32 < unat (pidx_length sign)"
    using assms(2,4) by simp
  from read_index_out_of_range [OF len this]
  have "read_index ?data \<lparr> content = ?data, gpos = length ?data, good = True \<rparr> (pidx_length sign)
        = decrypt (replicate (unat (pidx_length sign)) 0)" .
  then show ?thesis
    using load_valid_trailer(2) [of fs file_name ?data, OF assms(1) len(2) ok, of uncompress this]
    by (simp only: sign)
qed

lemma decrypt_three_zeros: "decrypt (replicate 3 0) = [0x82, 0xEE, 0x1D]"
  by code_simp

lemma parse_step_three_bytes: "parse_step [0x82, 0xEE, 0x1D] 0 = Break"
  by (simp add: parse_step_def le16_def)

lemma parse_three_bytes: "parse_loop [0x82, 0xEE, 0x1D] 0 [] 0 = ([], 1)"
  by (simp add: parse_loop.simps parse_step_three_bytes)

lemma load_sign_3:
  "load stored_uncompress (single_file path sign_3) new_GPK path
   = (Loaded, \<lparr> entries = [], name = path \<rparr>)"
proof -
  have "single_file path sign_3 path = Some ([] @ sign_3)"
    by (simp add: single_file_def)
  from load_overlong_index [where fs = "single_file path sign_3" and file_name = path
      and uncompress = stored_uncompress and this = new_GPK, OF this sign_3(1,2)]
  show ?thesis
    by (simp add: sign_3(3) decrypt_three_zeros decompress_data_def parse_three_bytes new_GPK_def)
qed

text \<open>
  C4, as stated, fails: the file is a trailer and nothing else, its \<^verbatim>\<open>pidx_length\<close> is 3,
  which is more than \<open>file_length - sizeof(Trailer) = 0\<close>, and \<^verbatim>\<open>load\<close> returns \<^verbatim>\<open>true\<close>.
\<close>

theorem C4_blob_before_the_file_start_loads:
  "length sign_3 - sizeof_GPKsig = 0
   \<and> unat (pidx_length sign_3) = 3
   \<and> \<not> broken_signature sign_3
   \<and> fst (load stored_uncompress (single_file (str ''a.GPK'') sign_3) new_GPK (str ''a.GPK''))
       = Loaded
   \<and> returns_true Loaded"
  by (simp add: sign_3 sizeof_GPKsig_32 load_sign_3 returns_true_def)

text \<open>
  C4, amended. After both trailer signatures are found valid, \<^verbatim>\<open>load\<close> seeks to
  \<open>file_length - sizeof(Trailer) - pidx_length\<close>, computed in wrapping 64-bit arithmetic,
  and reads \<^verbatim>\<open>pidx_length\<close> bytes, without testing the seek or the read. When
  \<open>pidx_length \<le> file_length - sizeof(Trailer)\<close> the blob is the \<^verbatim>\<open>pidx_length\<close> bytes
  before the trailer. Otherwise there is no error at this point: the blob is
  \<^verbatim>\<open>pidx_length\<close> zero bytes. In both cases the outcome of \<^verbatim>\<open>load\<close> is decided by
  \<^verbatim>\<open>decompress_data\<close> on the decrypted blob alone: a decompression error if it throws,
  success if it returns.
\<close>

theorem C4_load_reads_the_blob_without_range_check:
  assumes "fs file_name = Some data"
    and "length data < 2 ^ 63"
    and "\<not> broken_signature (snd (read_sign data))"
    and "L = unat (pidx_length (drop (length data - sizeof_GPKsig) data))"
    and "blob = (if L \<le> length data - sizeof_GPKsig
                 then take L (drop (length data - sizeof_GPKsig - L) data)
                 else replicate L 0)"
  shows "fst (load uncompress fs this file_name) =
           (case decompress_data uncompress (decrypt blob) of
              Inl e \<Rightarrow> DecompressionError e
            | Inr uncompressedData \<Rightarrow> Loaded)"
proof -
  note valid = load_valid_trailer [of fs file_name data, OF assms(1-3)]
  have "read_index data \<lparr> content = data, gpos = length data, good = True \<rparr>
          (pidx_length (drop (length data - 32) data)) = decrypt blob"
  proof (cases "L \<le> length data - 32")
    case True
    then show ?thesis
      using read_index_in_range [OF valid(1) assms(2), of "pidx_length (drop (length data - 32) data)"]
      by (simp add: assms(4,5) sizeof_GPKsig_32)
  next
    case False
    then show ?thesis
      using read_index_out_of_range [OF valid(1) assms(2), of "pidx_length (drop (length data - 32) data)"]
      by (simp add: assms(4,5) sizeof_GPKsig_32)
  qed
  then show ?thesis
    by (simp add: valid(2) split: sum.splits)
qed

theorem C4_load_witness:
  "single_file (str ''foo.GPK'') archive_foo (str ''foo.GPK'') = Some archive_foo
   \<and> length archive_foo < 2 ^ 63
   \<and> \<not> broken_signature (snd (read_sign archive_foo))
   \<and> unat (pidx_length (drop (length archive_foo - sizeof_GPKsig) archive_foo)) = 64
   \<and> 64 \<le> length archive_foo - sizeof_GPKsig
   \<and> take 64 (drop (length archive_foo - sizeof_GPKsig - 64) archive_foo) = blob_foo
   \<and> decompress_data stored_uncompress (decrypt blob_foo) = Inr index_foo
   \<and> fst (load stored_uncompress (single_file (str ''foo.GPK'') archive_foo) new_GPK
            (str ''foo.GPK'')) = Loaded"
proof -
  have opened: "single_file (str ''foo.GPK'') archive_foo (str ''foo.GPK'') = Some archive_foo"
    by (simp add: single_file_def)
  have len: "length archive_foo = 99"
    by (simp add: archive_foo_def payload_ABC_def length_blobs sign_64(1))
  then have bounds: "32 \<le> length archive_foo" "length archive_foo < 2 ^ 63"
    by simp_all
  have sign: "drop (length archive_foo - sizeof_GPKsig) archive_foo = sign_64"
    by (simp add: archive_foo_def payload_ABC_def length_blobs sign_64(1) sizeof_GPKsig_32)
  have ok: "\<not> broken_signature (snd (read_sign archive_foo))"
    using sign by (simp add: read_sign_full [OF bounds] sign_64(2) sizeof_GPKsig_32)
  have L: "64 = unat (pidx_length (drop (length archive_foo - sizeof_GPKsig) archive_foo))"
    by (simp add: sign sign_64(3))
  have range: "64 \<le> length archive_foo - sizeof_GPKsig"
    by (simp add: len sizeof_GPKsig_32)
  have blob: "take 64 (drop (length archive_foo - sizeof_GPKsig - 64) archive_foo) = blob_foo"
    by (simp add: archive_foo_def payload_ABC_def length_blobs sign_64(1) sizeof_GPKsig_32)
  have blob': "blob_foo = (if 64 \<le> length archive_foo - sizeof_GPKsig
                 then take 64 (drop (length archive_foo - sizeof_GPKsig - 64) archive_foo)
                 else replicate 64 0)"
    using range blob by simp
  have dec: "decompress_data stored_uncompress (decrypt blob_foo) = Inr index_foo"
    by (simp add: decrypt_blob_foo decompress_plain_foo)
  from C4_load_reads_the_blob_without_range_check
    [where fs = "single_file (str ''foo.GPK'') archive_foo" and file_name = "str ''foo.GPK''"
      and uncompress = stored_uncompress and this = new_GPK, OF opened bounds(2) ok L blob']
  have "fst (load stored_uncompress (single_file (str ''foo.GPK'') archive_foo) new_GPK
            (str ''foo.GPK'')) = Loaded"
    by (simp add: dec)
  with opened bounds(2) ok L [symmetric] range blob dec show ?thesis
    by blast
qed








subsection \<open>Names in the index\<close>





lemma keeps_separators: "keeps 0x5C" "keeps 0x2F"
  by (simp_all add: keeps_def)

lemma clean_filter: "clean cs = filter keeps cs"
  by (induction cs) (auto simp: keeps_separators)

lemma sanitize_filter: "sanitize filename = filter keeps (takeWhile (\<lambda>c. c \<noteq> 0) filename)"
  by (simp add: sanitize_def erase_from_nul_def clean_filter)




lemma parse_step_Push_name:
  assumes "parse_step u pos = Push e pos'"
  shows "GPKentry.name e \<noteq> [] \<and> list_all keeps (GPKentry.name e)"
  using assms
  by (auto simp: parse_step_def Let_def sanitize_filter list_all_iff split: if_splits)

lemma parse_loop_names:
  assumes "list_all (\<lambda>e. GPKentry.name e \<noteq> [] \<and> list_all keeps (GPKentry.name e)) es"
  shows "list_all (\<lambda>e. GPKentry.name e \<noteq> [] \<and> list_all keeps (GPKentry.name e))
           (fst (parse_loop u pos es n))"
  using assms
proof (induction u pos es n rule: parse_loop.induct)
  case (1 u pos es n)
  show ?case
  proof (cases "pos < length u")
    case False
    with 1 show ?thesis by (simp add: parse_loop.simps)
  next
    case True
    show ?thesis
    proof (cases "parse_step u pos")
      case Break
      with True 1 show ?thesis by (simp add: parse_loop.simps)
    next
      case (Continue pos')
      with True 1(1) [OF True Continue] 1(3) show ?thesis
        by (simp add: parse_loop.simps [of u pos])
    next
      case (Push e pos')
      with True 1(2) [OF True Push] 1(3) parse_step_Push_name [OF Push] show ?thesis
        by (simp add: parse_loop.simps [of u pos])
    qed
  qed
qed

text \<open>
  C8, at the archive \<^verbatim>\<open>backslash\<close>: \<^verbatim>\<open>load\<close> succeeds and stores an entry whose name is
  \<^verbatim>\<open>a\b\<close>, with the backslash.
\<close>

theorem C8_backslash_is_stored_in_the_index:
  "load stored_uncompress (single_file (str ''a.GPK'') archive_backslash) new_GPK (str ''a.GPK'')
   = (Loaded, \<lparr> entries = [entry_backslash], name = str ''a.GPK'' \<rparr>)
   \<and> GPKentry.name entry_backslash = [0x61, 0x5C, 0x62]
   \<and> 0x5C \<in> set (GPKentry.name entry_backslash)"
  by (simp add: load_archive_backslash entry_backslash_def)

subsection \<open>Termination of the parse loop\<close>

lemma parse_loop_iterations:
  "snd (parse_loop u pos es n) + pos \<le> n + (if pos < length u then length u else pos)"
proof (induction u pos es n rule: parse_loop.induct)
  case (1 u pos es n)
  show ?case
  proof (cases "pos < length u")
    case False
    then show ?thesis by (simp add: parse_loop.simps)
  next
    case True
    show ?thesis
    proof (cases "parse_step u pos")
      case Break
      with True show ?thesis by (simp add: parse_loop.simps)
    next
      case (Continue pos')
      with True 1(1) [OF True Continue] parse_step_Continue_advances [OF Continue]
      show ?thesis by (simp add: parse_loop.simps [of u pos] split: if_splits)
    next
      case (Push e pos')
      with True 1(2) [OF True Push] parse_step_Push_advances [OF Push]
      show ?thesis by (simp add: parse_loop.simps [of u pos] split: if_splits)
    qed
  qed
qed

text \<open>
  C9. \<open>parse_loop\<close> is a total function: its termination proof is the argument of the
  claim, that a run of the loop body which does not leave the loop moves the cursor
  forward. Stated: at every cursor inside the buffer the body leaves the loop or goes on
  at a cursor at least 2 bytes further, and the number of runs of the body, counted from
  the start of the buffer, is at most the length of the buffer.
\<close>

theorem C9_parse_loop_is_bounded_by_the_buffer:
  "(pos < length u \<longrightarrow>
      parse_step u pos = Break
      \<or> (\<exists>pos'. pos + 2 \<le> pos'
            \<and> (parse_step u pos = Continue pos' \<or> (\<exists>e. parse_step u pos = Push e pos'))))
   \<and> snd (parse_loop u 0 es 0) \<le> length u"
proof
  show "pos < length u \<longrightarrow>
      parse_step u pos = Break
      \<or> (\<exists>pos'. pos + 2 \<le> pos'
            \<and> (parse_step u pos = Continue pos' \<or> (\<exists>e. parse_step u pos = Push e pos')))"
  proof (cases "parse_step u pos")
    case Break
    then show ?thesis by simp
  next
    case (Continue pos')
    with parse_step_Continue_advances [OF Continue] show ?thesis by simp
  next
    case (Push e pos')
    with parse_step_Push_advances [OF Push] show ?thesis by simp
  qed
  show "snd (parse_loop u 0 es 0) \<le> length u"
    using parse_loop_iterations [of u 0 es 0] by (simp split: if_splits)
qed

theorem C9_parse_loop_witness:
  "0 < length index_foo
   \<and> parse_step index_foo 0 = Push entry_foo 47
   \<and> (0 :: nat) + 2 \<le> 47
   \<and> parse_step index_foo 47 = Break
   \<and> snd (parse_loop index_foo 0 [] 0) = 2
   \<and> snd (parse_loop index_foo 0 [] 0) \<le> length index_foo"
proof -
  have len: "length index_foo = 49"
    by (simp add: index_foo_def)
  have first: "parse_step index_foo 0 = Push entry_foo 47"
    by code_simp
  have second: "parse_step index_foo 47 = Break"
    by code_simp
  from C9_parse_loop_is_bounded_by_the_buffer [of 0 index_foo "[]"]
  have "snd (parse_loop index_foo 0 [] 0) \<le> length index_foo"
    by simp
  with len first second show ?thesis
    by (simp add: parse_index_foo)
qed

subsection \<open>Extraction\<close>





text \<open>On a failed stream nothing is read: the buffer is all zero bytes.\<close>

lemma read_payload_failed:
  assumes "\<not> good package"
  shows "read_payload package entry = (package, replicate (unat (comprlen (header entry))) 0)"
  using assms by (simp add: read_payload_def seekg_def read_failed store_at_start_def)












end
